theory Spec2Isabelle
  imports Complex_Main
begin

section \<open>Scalars, names, errors\<close>

text \<open>
  OpenFOAM's \<^verbatim>\<open>scalar\<close> is a floating-point number. The functions of
  \<^verbatim>\<open>noneThermophysicalFunction.C\<close> never compute with their scalar arguments, and
  \<^verbatim>\<open>IDEA.H\<close> only declares functions of scalars, so the embedding reads a scalar
  as a real number; nothing below depends on rounding.
  \<^verbatim>\<open>word\<close> and \<^verbatim>\<open>fileName\<close> are strings.
\<close>

type_synonym scalar = real
type_synonym word = string
type_synonym fileName = string

text \<open>
  \<^verbatim>\<open>FatalErrorInFunction << ... << exit(FatalError)\<close> ends the call without a
  value. The outcome of a call is therefore \<open>error + scalar\<close>, \<open>Inl\<close> the error.
  The constructors are the taxonomy of the specification (section 7); the payload of
  \<open>UndefinedFunction\<close> is the message streamed into \<^verbatim>\<open>FatalError\<close>.
\<close>

datatype error =
    UndefinedFunction string
  | DomainError
  | UnknownCorrelationType word
  | MalformedCoefficients word

definition nl :: char where
  "nl = CHR 0x0A"

section \<open>Property slots\<close>

text \<open>
  The thirteen properties of a liquid, in the order \<^verbatim>\<open>IDEA.H\<close> declares its
  members (lines 87-99) and its accessors (lines 146-183): \<^verbatim>\<open>rho\<close>, \<^verbatim>\<open>pv\<close>,
  \<^verbatim>\<open>hl\<close>, \<^verbatim>\<open>Cp\<close>, \<^verbatim>\<open>h\<close>, \<^verbatim>\<open>Cpg\<close>, \<^verbatim>\<open>B\<close>, \<^verbatim>\<open>mu\<close>, \<^verbatim>\<open>mug\<close>,
  \<^verbatim>\<open>kappa\<close>, \<^verbatim>\<open>kappag\<close>, \<^verbatim>\<open>sigma\<close>, \<^verbatim>\<open>D\<close>.
\<close>

datatype slot =
    slot_rho | slot_pv | slot_hl | slot_Cp | slot_h | slot_Cpg | slot_B
  | slot_mu | slot_mug | slot_kappa | slot_kappag | slot_sigma | slot_D

definition allSlots :: "slot list" where
  "allSlots =
     [slot_rho, slot_pv, slot_hl, slot_Cp, slot_h, slot_Cpg, slot_B,
      slot_mu, slot_mug, slot_kappa, slot_kappag, slot_sigma, slot_D]"

section \<open>The function \<^verbatim>\<open>none\<close> (noneThermophysicalFunction.C)\<close>

text \<open>
  A dictionary, as far as \<^verbatim>\<open>none\<close> reads it: \<^verbatim>\<open>dict.name()\<close>. The entries are
  the configuration record of the specification (section 6): per slot a type name and
  the ordered coefficients.
\<close>

record coeffEntry =
  typeName :: word
  coefficients :: "scalar list"

record dictionary =
  name :: fileName
  entries :: "slot \<rightharpoonup> coeffEntry"

text \<open>
  The only member of \<^verbatim>\<open>none\<close> that the source file uses is \<^verbatim>\<open>dictName_\<close>
  (field \<open>dictName\<close>: a HOL name cannot end in an underscore).
\<close>

record none =
  dictName :: fileName

text \<open>
  \<^verbatim>\<open>none::none(const dictionary& dict) : dictName_(dict.name()) {}\<close>
\<close>

definition none_ctor :: "dictionary \<Rightarrow> none" where
  "none_ctor dict = \<lparr>dictName = name dict\<rparr>"

text \<open>
  \<^verbatim>\<open>
  scalar none::f(scalar p, scalar T) const
  {
      FatalErrorInFunction
          << "Required Function " << nl
          << "    " << dictName_ << nl
          << "    is not defined."
          << exit(FatalError);
      return 0;
  }
  \<close>
  The \<^verbatim>\<open>return 0\<close> after \<^verbatim>\<open>exit(FatalError)\<close> is not reached.
\<close>

definition none_message :: "none \<Rightarrow> string" where
  "none_message this =
     ''Required Function '' @ [nl] @
     ''    '' @ dictName this @ [nl] @
     ''    is not defined.''"

definition none_f :: "none \<Rightarrow> scalar \<Rightarrow> scalar \<Rightarrow> error + scalar" where
  "none_f this p T = Inl (UndefinedFunction (none_message this))"

text \<open>
  \<^verbatim>\<open>void none::write(Ostream& os) const {}\<close>: the stream is passed through the
  call; \<open>'os\<close> is the content of the stream, whatever its representation.
\<close>

definition none_write :: "none \<Rightarrow> 'os \<Rightarrow> 'os" where
  "none_write this os = os"

section \<open>The liquid \<^verbatim>\<open>IDEA\<close> (IDEA.H)\<close>

text \<open>
  The classes \<^verbatim>\<open>thermophysicalFunctions::NSRDS0\<close> ... \<^verbatim>\<open>APIdiffCoef\<close> are
  declared in headers that \<^verbatim>\<open>IDEA.H\<close> includes (lines 62-70). Each is a type of its
  own, as in the C++; what an object of the class holds is its ordered coefficients.
\<close>

datatype NSRDS0 = NSRDS0 "scalar list"
datatype NSRDS1 = NSRDS1 "scalar list"
datatype NSRDS2 = NSRDS2 "scalar list"
datatype NSRDS4 = NSRDS4 "scalar list"
datatype NSRDS5 = NSRDS5 "scalar list"
datatype NSRDS6 = NSRDS6 "scalar list"
datatype NSRDS7 = NSRDS7 "scalar list"
datatype APIdiffCoef = APIdiffCoef "scalar list"

text \<open>
  \<^verbatim>\<open>class IDEA : public liquidProperties\<close> with its private data (lines 87-99).
  The base class \<^verbatim>\<open>liquidProperties\<close> is declared elsewhere: its sub-object is a
  field of an arbitrary type \<open>'l\<close>. Member \<^verbatim>\<open>rho_\<close> is field \<open>rhoF\<close>, and so on.
\<close>

record 'l IDEA =
  liquidProperties :: 'l
  rhoF :: NSRDS5
  pvF :: NSRDS1
  hlF :: NSRDS6
  CpF :: NSRDS0
  hF :: NSRDS0
  CpgF :: NSRDS7
  BF :: NSRDS4
  muF :: NSRDS1
  mugF :: NSRDS2
  kappaF :: NSRDS0
  kappagF :: NSRDS2
  sigmaF :: NSRDS6
  DF :: APIdiffCoef

text \<open>
  A function object seen through its base class \<^verbatim>\<open>thermophysicalFunction\<close>: one of
  the correlation families, named by its type, with its coefficients, or \<^verbatim>\<open>none\<close>
  (which \<^verbatim>\<open>noneThermophysicalFunction.C\<close>, lines 35-36, adds to the run-time
  selection table of \<^verbatim>\<open>thermophysicalFunction\<close>).
\<close>

datatype thermophysicalFunction =
    Fn word "scalar list"
  | none_fn none

fun typeOf :: "thermophysicalFunction \<Rightarrow> word" where
  "typeOf (Fn ty cs) = ty"
| "typeOf (none_fn n) = ''none''"

fun asNSRDS0 :: "NSRDS0 \<Rightarrow> thermophysicalFunction" where
  "asNSRDS0 (NSRDS0 cs) = Fn ''NSRDS0'' cs"

fun asNSRDS1 :: "NSRDS1 \<Rightarrow> thermophysicalFunction" where
  "asNSRDS1 (NSRDS1 cs) = Fn ''NSRDS1'' cs"

fun asNSRDS2 :: "NSRDS2 \<Rightarrow> thermophysicalFunction" where
  "asNSRDS2 (NSRDS2 cs) = Fn ''NSRDS2'' cs"

fun asNSRDS4 :: "NSRDS4 \<Rightarrow> thermophysicalFunction" where
  "asNSRDS4 (NSRDS4 cs) = Fn ''NSRDS4'' cs"

fun asNSRDS5 :: "NSRDS5 \<Rightarrow> thermophysicalFunction" where
  "asNSRDS5 (NSRDS5 cs) = Fn ''NSRDS5'' cs"

fun asNSRDS6 :: "NSRDS6 \<Rightarrow> thermophysicalFunction" where
  "asNSRDS6 (NSRDS6 cs) = Fn ''NSRDS6'' cs"

fun asNSRDS7 :: "NSRDS7 \<Rightarrow> thermophysicalFunction" where
  "asNSRDS7 (NSRDS7 cs) = Fn ''NSRDS7'' cs"

fun asAPIdiffCoef :: "APIdiffCoef \<Rightarrow> thermophysicalFunction" where
  "asAPIdiffCoef (APIdiffCoef cs) = Fn ''APIdiffCoef'' cs"

text \<open>The function object bound to each property slot of an \<^verbatim>\<open>IDEA\<close> (lines 87-99).\<close>

fun IDEA_slot :: "'l IDEA \<Rightarrow> slot \<Rightarrow> thermophysicalFunction" where
  "IDEA_slot this slot_rho = asNSRDS5 (rhoF this)"
| "IDEA_slot this slot_pv = asNSRDS1 (pvF this)"
| "IDEA_slot this slot_hl = asNSRDS6 (hlF this)"
| "IDEA_slot this slot_Cp = asNSRDS0 (CpF this)"
| "IDEA_slot this slot_h = asNSRDS0 (hF this)"
| "IDEA_slot this slot_Cpg = asNSRDS7 (CpgF this)"
| "IDEA_slot this slot_B = asNSRDS4 (BF this)"
| "IDEA_slot this slot_mu = asNSRDS1 (muF this)"
| "IDEA_slot this slot_mug = asNSRDS2 (mugF this)"
| "IDEA_slot this slot_kappa = asNSRDS0 (kappaF this)"
| "IDEA_slot this slot_kappag = asNSRDS2 (kappagF this)"
| "IDEA_slot this slot_sigma = asNSRDS6 (sigmaF this)"
| "IDEA_slot this slot_D = asAPIdiffCoef (DF this)"

text \<open>
  \<^verbatim>\<open>IDEA\<close> declares no copy constructor, so \<^verbatim>\<open>IDEA(*this)\<close> is the implicit
  one: it copies the base sub-object and every member, which are all held by value.
\<close>

definition IDEA_copy :: "'l IDEA \<Rightarrow> 'l IDEA" where
  "IDEA_copy other =
     \<lparr>liquidProperties = liquidProperties other,
      rhoF = rhoF other, pvF = pvF other, hlF = hlF other, CpF = CpF other,
      hF = hF other, CpgF = CpgF other, BF = BF other, muF = muF other,
      mugF = mugF other, kappaF = kappaF other, kappagF = kappagF other,
      sigmaF = sigmaF other, DF = DF other\<rparr>"

text \<open>
  The free store holding the \<^verbatim>\<open>IDEA\<close> objects: cell \<open>a\<close> of the list is the
  object at address \<open>a\<close>. \<^verbatim>\<open>new IDEA(v)\<close> allocates a cell that was not in use and
  returns its address.
\<close>

definition new_IDEA :: "'l IDEA list \<Rightarrow> 'l IDEA \<Rightarrow> 'l IDEA list \<times> nat" where
  "new_IDEA hp v = (hp @ [v], length hp)"

text \<open>
  \<^verbatim>\<open>
  virtual autoPtr<liquidProperties> clone() const
  {
      return autoPtr<liquidProperties>(new IDEA(*this));
  }
  \<close>
  \<^verbatim>\<open>this\<close> is the address of a live object; on any other address the call has no
  meaning (\<open>None\<close>). The result is the store after the call and the address the
  \<^verbatim>\<open>autoPtr\<close> owns.
\<close>

definition clone :: "'l IDEA list \<Rightarrow> nat \<Rightarrow> ('l IDEA list \<times> nat) option" where
  "clone hp this =
     (if this < length hp then Some (new_IDEA hp (IDEA_copy (hp ! this))) else None)"

section \<open>The parts of the framework that are specified but not among the source files\<close>

text \<open>
  Modelled from the spec: the evaluation formulas of the correlation families (the
  \<^verbatim>\<open>f\<close> of \<^verbatim>\<open>NSRDS0\<close> ... \<^verbatim>\<open>APIdiffCoef\<close>) are missing. Section 2 calls each a
  "stateless/immutable evaluator f(p, T) -> value" and section 4.1 "a pure numeric
  formula over ... coefficients and (p, T)": they are a parameter \<open>ev\<close>, a function of
  the type name, the coefficients, \<open>p\<close> and \<open>T\<close>.
\<close>

type_synonym formulas = "word \<Rightarrow> scalar list \<Rightarrow> scalar \<Rightarrow> scalar \<Rightarrow> error + scalar"

text \<open>
  Modelled from the spec: the virtual call \<^verbatim>\<open>thermophysicalFunction::f\<close> is missing
  (only its override in \<^verbatim>\<open>none\<close> is a source file). It dispatches on the variant:
  a family evaluates its formula, \<^verbatim>\<open>none\<close> runs \<open>none_f\<close>.
\<close>

fun f :: "formulas \<Rightarrow> thermophysicalFunction \<Rightarrow> scalar \<Rightarrow> scalar \<Rightarrow> error + scalar" where
  "f ev (Fn ty cs) p T = ev ty cs p T"
| "f ev (none_fn n) p T = none_f n p T"

text \<open>
  Modelled from the spec: the CorrelationRegistry (section 4.1) is missing.
  "create(typeName, coefficients) -> CorrelationFunction. Fails with
  UnknownCorrelationType if typeName has no registered constructor; fails with
  MalformedCoefficients if the coefficient count does not match the expected arity for
  that type." The registered families and their arities are a parameter \<open>reg\<close>;
  \<^verbatim>\<open>none\<close> registers itself (noneThermophysicalFunction.C, line 36) and is
  constructed from the dictionary by \<open>none_ctor\<close>.
\<close>

type_synonym registry = "word \<rightharpoonup> nat"

definition New :: "registry \<Rightarrow> dictionary \<Rightarrow> coeffEntry \<Rightarrow> error + thermophysicalFunction" where
  "New reg dict e =
     (if typeName e = ''none'' then Inr (none_fn (none_ctor dict))
      else case reg (typeName e) of
        None \<Rightarrow> Inl (UnknownCorrelationType (typeName e))
      | Some n \<Rightarrow>
          if length (coefficients e) = n then Inr (Fn (typeName e) (coefficients e))
          else Inl (MalformedCoefficients (typeName e)))"

text \<open>
  Modelled from the spec: the PropertySet (section 4.2) and its construction from
  configuration are missing. "Construction from configuration reads, for each slot, a
  type name + coefficient list and builds it via CorrelationRegistry; missing slots
  default to the "none" variant". Every slot starts as \<^verbatim>\<open>none\<close> and the slots are
  then built in order; the first failure of the registry ends the construction.
\<close>

record PropertySet =
  psName :: fileName
  slots :: "slot \<Rightarrow> thermophysicalFunction"

definition newSlot :: "registry \<Rightarrow> dictionary \<Rightarrow> slot \<Rightarrow> error + thermophysicalFunction" where
  "newSlot reg dict s =
     (case entries dict s of
        None \<Rightarrow> Inr (none_fn (none_ctor dict))
      | Some e \<Rightarrow> New reg dict e)"

fun createSlots ::
  "registry \<Rightarrow> dictionary \<Rightarrow> slot list \<Rightarrow> (slot \<Rightarrow> thermophysicalFunction)
   \<Rightarrow> error + (slot \<Rightarrow> thermophysicalFunction)" where
  "createSlots reg dict [] acc = Inr acc"
| "createSlots reg dict (s # ss) acc =
     (case newSlot reg dict s of
        Inl e \<Rightarrow> Inl e
      | Inr fn \<Rightarrow> createSlots reg dict ss (acc(s := fn)))"

definition PropertySet_create :: "registry \<Rightarrow> dictionary \<Rightarrow> error + PropertySet" where
  "PropertySet_create reg dict =
     (case createSlots reg dict allSlots (\<lambda>s. none_fn (none_ctor dict)) of
        Inl e \<Rightarrow> Inl e
      | Inr sl \<Rightarrow> Inr \<lparr>psName = name dict, slots = sl\<rparr>)"

text \<open>
  Modelled from the spec: \<^verbatim>\<open>write\<close> of a PropertySet (section 4.2) and of the
  correlation families is missing (\<^verbatim>\<open>IDEA.H\<close> only declares
  \<^verbatim>\<open>void write(Ostream& os) const\<close>). "a write(sink) operation serializing every
  slot's type name and coefficients back out in the same configuration shape", section
  6: "type name first, coefficients in original declared order". The sink holds the
  records written so far, the last one still open: \<open>beginRecord\<close> opens the record of
  a slot with its type name, \<open>writeScalar\<close> appends one coefficient to the open
  record. For each slot the PropertySet opens the record and calls \<^verbatim>\<open>write\<close> of the
  bound function, which writes its coefficients in order; for \<^verbatim>\<open>none\<close> that call
  is \<open>none_write\<close>, the source's.
\<close>

type_synonym Ostream = "(slot \<times> coeffEntry) list"

definition beginRecord :: "slot \<Rightarrow> word \<Rightarrow> Ostream \<Rightarrow> Ostream" where
  "beginRecord s ty os = os @ [(s, \<lparr>typeName = ty, coefficients = []\<rparr>)]"

definition writeScalar :: "scalar \<Rightarrow> Ostream \<Rightarrow> Ostream" where
  "writeScalar c os =
     (case rev os of
        [] \<Rightarrow> os
      | (s, e) # r \<Rightarrow> rev r @ [(s, e\<lparr>coefficients := coefficients e @ [c]\<rparr>)])"

fun thermophysicalFunction_write :: "thermophysicalFunction \<Rightarrow> Ostream \<Rightarrow> Ostream" where
  "thermophysicalFunction_write (Fn ty cs) os = foldl (\<lambda>os c. writeScalar c os) os cs"
| "thermophysicalFunction_write (none_fn n) os = none_write n os"

definition slot_write :: "slot \<Rightarrow> thermophysicalFunction \<Rightarrow> Ostream \<Rightarrow> Ostream" where
  "slot_write s fn os = thermophysicalFunction_write fn (beginRecord s (typeOf fn) os)"

definition PropertySet_write :: "PropertySet \<Rightarrow> Ostream \<Rightarrow> Ostream" where
  "PropertySet_write ps os = foldl (\<lambda>os s. slot_write s (slots ps s) os) os allSlots"

text \<open>The configuration record that a PropertySet writes into an empty sink.\<close>

definition written :: "PropertySet \<Rightarrow> dictionary" where
  "written ps = \<lparr>name = psName ps, entries = map_of (PropertySet_write ps [])\<rparr>"

text \<open>The coefficients of a function object, in declared order; \<^verbatim>\<open>none\<close> has none.\<close>

fun coeffsOf :: "thermophysicalFunction \<Rightarrow> scalar list" where
  "coeffsOf (Fn ty cs) = cs"
| "coeffsOf (none_fn n) = []"

text \<open>
  Two outcomes agree when they are the same error, or two values within the relative
  tolerance 1e-9 (section 8).
\<close>

fun agree :: "error + scalar \<Rightarrow> error + scalar \<Rightarrow> bool" where
  "agree (Inr x) (Inr y) = (\<bar>x - y\<bar> \<le> 1 / 10 ^ 9 * max \<bar>x\<bar> \<bar>y\<bar>)"
| "agree (Inl d) (Inl e) = (d = e)"
| "agree (Inr x) (Inl e) = False"
| "agree (Inl d) (Inr y) = False"

section \<open>Lemmas\<close>

lemma allSlots_complete: "s \<in> set allSlots"
  by (cases s) (simp_all add: allSlots_def)

lemma createSlots_Inr:
  "createSlots reg dict ss acc = Inr sl \<Longrightarrow>
     (s \<in> set ss \<longrightarrow> newSlot reg dict s = Inr (sl s)) \<and> (s \<notin> set ss \<longrightarrow> sl s = acc s)"
proof (induction ss arbitrary: acc)
  case Nil
  then show ?case by simp
next
  case (Cons x xs)
  then obtain fn where fn: "newSlot reg dict x = Inr fn"
    and rest: "createSlots reg dict xs (acc(x := fn)) = Inr sl"
    by (auto split: sum.splits)
  from Cons.IH [OF rest] fn show ?case
    by (cases "s \<in> set xs") auto
qed

lemma createSlots_total:
  "(\<forall>s \<in> set ss. \<exists>fn. newSlot reg dict s = Inr fn) \<Longrightarrow>
     \<exists>sl. createSlots reg dict ss acc = Inr sl"
  by (induction ss arbitrary: acc) auto

lemma create_slots:
  assumes "PropertySet_create reg dict = Inr ps"
  shows "psName ps = name dict" and "newSlot reg dict s = Inr (slots ps s)"
proof -
  from assms obtain sl
    where sl: "createSlots reg dict allSlots (\<lambda>s. none_fn (none_ctor dict)) = Inr sl"
      and ps: "ps = \<lparr>psName = name dict, slots = sl\<rparr>"
    by (auto simp: PropertySet_create_def split: sum.splits)
  show "psName ps = name dict" by (simp add: ps)
  from createSlots_Inr [OF sl, of s] allSlots_complete [of s]
  show "newSlot reg dict s = Inr (slots ps s)" by (simp add: ps)
qed

lemma create_from_slots:
  assumes "\<And>s. newSlot reg dict s = Inr (sl s)"
  shows "PropertySet_create reg dict = Inr \<lparr>psName = name dict, slots = sl\<rparr>"
proof -
  from createSlots_total [of allSlots reg dict] assms
  obtain sl' where sl': "createSlots reg dict allSlots (\<lambda>s. none_fn (none_ctor dict)) = Inr sl'"
    by blast
  have "sl' s = sl s" for s
    using createSlots_Inr [OF sl', of s] allSlots_complete [of s] assms [of s] by simp
  then have "sl' = sl" by (rule ext)
  with sl' show ?thesis by (simp add: PropertySet_create_def)
qed

lemma newSlot_Fn:
  assumes "newSlot reg dict s = Inr (Fn ty cs)"
  shows "ty \<noteq> ''none'' \<and> reg ty = Some (length cs)"
  using assms
  by (auto simp: newSlot_def New_def split: option.splits if_splits)

lemma newSlot_none:
  assumes "newSlot reg dict s = Inr (none_fn n)"
  shows "n = none_ctor dict"
  using assms
  by (auto simp: newSlot_def New_def split: option.splits if_splits)

lemma writeScalar_open:
  "writeScalar c (os @ [(s, \<lparr>typeName = ty, coefficients = acc\<rparr>)]) =
     os @ [(s, \<lparr>typeName = ty, coefficients = acc @ [c]\<rparr>)]"
  by (simp add: writeScalar_def)

lemma writeScalars_open:
  "foldl (\<lambda>os c. writeScalar c os) (os @ [(s, \<lparr>typeName = ty, coefficients = acc\<rparr>)]) cs =
     os @ [(s, \<lparr>typeName = ty, coefficients = acc @ cs\<rparr>)]"
  by (induction cs arbitrary: acc) (simp_all add: writeScalar_open)

lemma slot_write_record:
  "slot_write s fn os = os @ [(s, \<lparr>typeName = typeOf fn, coefficients = coeffsOf fn\<rparr>)]"
proof (cases fn)
  case (Fn ty cs)
  show ?thesis
    using writeScalars_open [of os s ty "[]" cs]
    by (simp add: Fn slot_write_def beginRecord_def)
next
  case (none_fn n)
  show ?thesis
    by (simp add: none_fn slot_write_def beginRecord_def none_write_def)
qed

lemma write_records:
  "foldl (\<lambda>os s. slot_write s (sl s) os) os ss =
     os @ map (\<lambda>s. (s, \<lparr>typeName = typeOf (sl s), coefficients = coeffsOf (sl s)\<rparr>)) ss"
  by (induction ss arbitrary: os) (simp_all add: slot_write_record)

lemma map_of_records:
  "map_of (map (\<lambda>s. (s, g s)) ss) s = (if s \<in> set ss then Some (g s) else None)"
  by (induction ss) auto

lemma entries_written:
  "entries (written ps) s =
     Some \<lparr>typeName = typeOf (slots ps s), coefficients = coeffsOf (slots ps s)\<rparr>"
  using write_records [of "slots ps" "[]" allSlots] allSlots_complete [of s]
  by (simp add: written_def PropertySet_write_def map_of_records)

lemma create_written:
  assumes "PropertySet_create reg dict = Inr ps"
  shows "PropertySet_create reg (written ps) = Inr ps"
proof -
  have nm: "name (written ps) = name dict"
    using create_slots(1) [OF assms] by (simp add: written_def)
  have "newSlot reg (written ps) s = Inr (slots ps s)" for s
  proof (cases "slots ps s")
    case (Fn ty cs)
    with create_slots(2) [OF assms, of s] have "newSlot reg dict s = Inr (Fn ty cs)"
      by simp
    from newSlot_Fn [OF this] Fn entries_written [of ps s] show ?thesis
      by (simp add: newSlot_def New_def)
  next
    case (none_fn n)
    with create_slots(2) [OF assms, of s] have "newSlot reg dict s = Inr (none_fn n)"
      by simp
    from newSlot_none [OF this] none_fn entries_written [of ps s] nm show ?thesis
      by (simp add: newSlot_def New_def none_ctor_def)
  qed
  from create_from_slots [of reg "written ps" "slots ps", OF this] nm create_slots(1) [OF assms]
  show ?thesis by simp
qed

lemma agree_refl: "agree r r"
  by (cases r) simp_all

lemma IDEA_copy_eq: "IDEA_copy x = x"
  by (simp add: IDEA_copy_def)

lemma upcast_typeOf:
  "typeOf (asNSRDS0 z0) = ''NSRDS0''" "typeOf (asNSRDS1 z1) = ''NSRDS1''"
  "typeOf (asNSRDS2 z2) = ''NSRDS2''" "typeOf (asNSRDS4 z4) = ''NSRDS4''"
  "typeOf (asNSRDS5 z5) = ''NSRDS5''" "typeOf (asNSRDS6 z6) = ''NSRDS6''"
  "typeOf (asNSRDS7 z7) = ''NSRDS7''" "typeOf (asAPIdiffCoef zD) = ''APIdiffCoef''"
  by (cases z0, simp) (cases z1, simp, cases z2, simp, cases z4, simp, cases z5, simp,
      cases z6, simp, cases z7, simp, cases zD, simp)

lemma upcast_Fn:
  "\<exists>cs. asNSRDS0 z0 = Fn ''NSRDS0'' cs" "\<exists>cs. asNSRDS1 z1 = Fn ''NSRDS1'' cs"
  "\<exists>cs. asNSRDS2 z2 = Fn ''NSRDS2'' cs" "\<exists>cs. asNSRDS4 z4 = Fn ''NSRDS4'' cs"
  "\<exists>cs. asNSRDS5 z5 = Fn ''NSRDS5'' cs" "\<exists>cs. asNSRDS6 z6 = Fn ''NSRDS6'' cs"
  "\<exists>cs. asNSRDS7 z7 = Fn ''NSRDS7'' cs" "\<exists>cs. asAPIdiffCoef zD = Fn ''APIdiffCoef'' cs"
  by (cases z0, simp) (cases z1, simp, cases z2, simp, cases z4, simp, cases z5, simp,
      cases z6, simp, cases z7, simp, cases zD, simp)

section \<open>Theorems\<close>

text \<open>
  C1. Evaluating the \<^verbatim>\<open>none\<close> function fails for every pressure and every
  temperature: the result of \<^verbatim>\<open>f(p, T)\<close> is never a value, it is the
  \<open>UndefinedFunction\<close> error, and the message of the error contains the name the
  function was constructed with (the name of the owning dictionary).
\<close>

theorem none_f_always_fails:
  "(\<exists>pre suf. none_f this p T = Inl (UndefinedFunction (pre @ dictName this @ suf)))
   \<and> (\<exists>pre suf. none_f (none_ctor dict) p T = Inl (UndefinedFunction (pre @ name dict @ suf)))
   \<and> (\<nexists>v. none_f this p T = Inr v)"
proof (intro conjI)
  have m: "none_message n =
      (''Required Function '' @ [nl] @ ''    '') @ dictName n @ ([nl] @ ''    is not defined.'')"
    for n
    by (simp add: none_message_def)
  show "\<exists>pre suf. none_f this p T = Inl (UndefinedFunction (pre @ dictName this @ suf))"
    unfolding none_f_def using m [of this] by blast
  have "dictName (none_ctor dict) = name dict"
    by (simp add: none_ctor_def)
  then show "\<exists>pre suf. none_f (none_ctor dict) p T
      = Inl (UndefinedFunction (pre @ name dict @ suf))"
    unfolding none_f_def using m [of "none_ctor dict"] by metis
  show "\<nexists>v. none_f this p T = Inr v"
    by (simp add: none_f_def)
qed

text \<open>
  C2. For every PropertySet \<open>ps\<close> constructed from a configuration (slots bound to
  \<^verbatim>\<open>none\<close> included), \<^verbatim>\<open>write\<close> emits one record per slot, in slot order, holding
  the type name of the slot and then its coefficients in their declared order; and
  constructing a PropertySet from the written record succeeds and gives a PropertySet
  whose every slot evaluates, at every \<open>(p, T)\<close>, to an outcome that agrees with the
  original's within the relative tolerance 1e-9 (it is the same PropertySet).
\<close>

theorem write_create_roundtrip:
  assumes "PropertySet_create reg dict = Inr ps"
  shows "PropertySet_write ps [] =
           map (\<lambda>s. (s, \<lparr>typeName = typeOf (slots ps s), coefficients = coeffsOf (slots ps s)\<rparr>))
             allSlots
     \<and> (\<exists>ps'. PropertySet_create reg (written ps) = Inr ps' \<and> ps' = ps
           \<and> (\<forall>s p T. agree (f ev (slots ps' s) p T) (f ev (slots ps s) p T)))"
proof (intro conjI)
  show "PropertySet_write ps [] =
      map (\<lambda>s. (s, \<lparr>typeName = typeOf (slots ps s), coefficients = coeffsOf (slots ps s)\<rparr>))
        allSlots"
    using write_records [of "slots ps" "[]" allSlots] by (simp add: PropertySet_write_def)
  show "\<exists>ps'. PropertySet_create reg (written ps) = Inr ps' \<and> ps' = ps
      \<and> (\<forall>s p T. agree (f ev (slots ps' s) p T) (f ev (slots ps s) p T))"
    using create_written [OF assms] by (simp add: agree_refl)
qed

theorem write_create_roundtrip_witness:
  "\<exists>ps. PropertySet_create [''NSRDS5'' \<mapsto> 4]
          \<lparr>name = ''liquid'',
           entries = [slot_rho \<mapsto> \<lparr>typeName = ''NSRDS5'', coefficients = [1, 2, 3, 4]\<rparr>]\<rparr>
        = Inr ps
     \<and> hd (PropertySet_write ps []) =
          (slot_rho, \<lparr>typeName = ''NSRDS5'', coefficients = [1, 2, 3, 4]\<rparr>)
     \<and> last (PropertySet_write ps []) = (slot_D, \<lparr>typeName = ''none'', coefficients = []\<rparr>)
     \<and> PropertySet_create [''NSRDS5'' \<mapsto> 4] (written ps) = Inr ps
     \<and> agree (f (\<lambda>ty cs p T. Inr (sum_list cs)) (slots ps slot_rho) 101325 300) (Inr 10)"
proof -
  let ?reg = "[''NSRDS5'' \<mapsto> (4::nat)]"
  let ?dict = "\<lparr>name = ''liquid'',
      entries = [slot_rho \<mapsto> \<lparr>typeName = ''NSRDS5'', coefficients = [1, 2, 3, 4]\<rparr>]\<rparr>"
  have "\<exists>ps. PropertySet_create ?reg ?dict = Inr ps"
    by (simp add: PropertySet_create_def allSlots_def newSlot_def New_def)
  then obtain ps where ps: "PropertySet_create ?reg ?dict = Inr ps" ..
  have rho: "slots ps slot_rho = Fn ''NSRDS5'' [1, 2, 3, 4]"
    using create_slots(2) [OF ps, of slot_rho] by (simp add: newSlot_def New_def)
  have D: "slots ps slot_D = none_fn \<lparr>dictName = ''liquid''\<rparr>"
    using create_slots(2) [OF ps, of slot_D] by (simp add: newSlot_def none_ctor_def)
  from write_create_roundtrip [OF ps, of "\<lambda>ty cs p T. Inr (sum_list cs)"] rho D ps
  show ?thesis
    by (auto simp: allSlots_def)
qed

text \<open>
  C6. Constructing a PropertySet never fails because slots are unconfigured: when
  every slot that the configuration does hold is accepted by the registry, the
  construction succeeds; each missing slot is bound to the \<^verbatim>\<open>none\<close> function, which
  stores the name of the dictionary and nothing else; evaluating such a slot fails
  with \<open>UndefinedFunction\<close> at every \<open>(p, T)\<close>; and every configured slot is bound to
  the function the registry built for it, which a family evaluates by its formula.
\<close>

theorem create_missing_slots_none:
  assumes "\<forall>s e. entries dict s = Some e \<longrightarrow> (\<exists>fn. New reg dict e = Inr fn)"
  shows "\<exists>ps. PropertySet_create reg dict = Inr ps
     \<and> (\<forall>s. entries dict s = None \<longrightarrow>
           slots ps s = none_fn (none_ctor dict)
           \<and> none_ctor dict = \<lparr>dictName = name dict\<rparr>
           \<and> (\<forall>p T. \<exists>m. f ev (slots ps s) p T = Inl (UndefinedFunction m)))
     \<and> (\<forall>s e. entries dict s = Some e \<longrightarrow>
           New reg dict e = Inr (slots ps s)
           \<and> (typeName e \<noteq> ''none'' \<longrightarrow>
                (\<forall>p T. f ev (slots ps s) p T = ev (typeName e) (coefficients e) p T)))"
proof -
  have "\<exists>fn. newSlot reg dict s = Inr fn" for s
    using assms by (cases "entries dict s") (simp_all add: newSlot_def)
  then obtain sl where sl: "\<And>s. newSlot reg dict s = Inr (sl s)"
    by metis
  let ?ps = "\<lparr>psName = name dict, slots = sl\<rparr>"
  have created: "PropertySet_create reg dict = Inr ?ps"
    using sl by (rule create_from_slots)
  have missing: "sl s = none_fn (none_ctor dict)" if "entries dict s = None" for s
    using sl [of s] that by (simp add: newSlot_def)
  have configured: "New reg dict e = Inr (sl s)" if "entries dict s = Some e" for s e
    using sl [of s] that by (simp add: newSlot_def)
  have formula: "f ev (sl s) p T = ev (typeName e) (coefficients e) p T"
    if "entries dict s = Some e" and "typeName e \<noteq> ''none''" for s e p T
    using configured [OF that(1), symmetric] that(2)
    by (auto simp: New_def split: option.splits if_splits)
  show ?thesis
  proof (intro exI [of _ ?ps] conjI allI impI)
    show "PropertySet_create reg dict = Inr ?ps" by (rule created)
  qed (simp_all add: missing configured formula none_ctor_def none_f_def)
qed

theorem create_missing_slots_none_witness:
  "\<exists>ps. PropertySet_create [''NSRDS5'' \<mapsto> 4]
          \<lparr>name = ''liquid'',
           entries = [slot_rho \<mapsto> \<lparr>typeName = ''NSRDS5'', coefficients = [1, 2, 3, 4]\<rparr>]\<rparr>
        = Inr ps
     \<and> slots ps slot_mu = none_fn \<lparr>dictName = ''liquid''\<rparr>
     \<and> (\<exists>m. f (\<lambda>ty cs p T. Inr (sum_list cs)) (slots ps slot_mu) 101325 300
           = Inl (UndefinedFunction m))
     \<and> f (\<lambda>ty cs p T. Inr (sum_list cs)) (slots ps slot_rho) 101325 300 = Inr 10"
proof -
  let ?reg = "[''NSRDS5'' \<mapsto> (4::nat)]"
  let ?dict = "\<lparr>name = ''liquid'',
      entries = [slot_rho \<mapsto> \<lparr>typeName = ''NSRDS5'', coefficients = [1, 2, 3, 4]\<rparr>]\<rparr>"
  have ok: "\<forall>s e. entries ?dict s = Some e \<longrightarrow> (\<exists>fn. New ?reg ?dict e = Inr fn)"
    by (auto simp: New_def split: if_splits)
  from create_missing_slots_none [OF ok, of "\<lambda>ty cs p T. Inr (sum_list cs)"]
  obtain ps where ps: "PropertySet_create ?reg ?dict = Inr ps"
    and missing: "\<forall>s. entries ?dict s = None \<longrightarrow>
           slots ps s = none_fn (none_ctor ?dict)
           \<and> none_ctor ?dict = \<lparr>dictName = name ?dict\<rparr>
           \<and> (\<forall>p T. \<exists>m. f (\<lambda>ty cs p T. Inr (sum_list cs)) (slots ps s) p T
                 = Inl (UndefinedFunction m))"
    and configured: "\<forall>s e. entries ?dict s = Some e \<longrightarrow>
           New ?reg ?dict e = Inr (slots ps s)
           \<and> (typeName e \<noteq> ''none'' \<longrightarrow>
                (\<forall>p T. f (\<lambda>ty cs p T. Inr (sum_list cs)) (slots ps s) p T
                   = Inr (sum_list (coefficients e))))"
    by blast
  from missing [rule_format, of slot_mu] configured [rule_format, of slot_rho] ps
  show ?thesis
    by (intro exI [of _ ps]) (simp add: none_ctor_def none_f_def)
qed

text \<open>
  C8. Writing the \<^verbatim>\<open>none\<close> function emits nothing: whatever the stream holds
  before the call, it holds exactly that after it, so neither a type name nor a
  coefficient is written.
\<close>

theorem none_write_emits_nothing:
  "none_write this os = os"
  by (simp add: none_write_def)

text \<open>
  C9. Every \<^verbatim>\<open>IDEA\<close> object binds the same correlation family to each property
  slot: density \<^verbatim>\<open>NSRDS5\<close>, vapour pressure \<^verbatim>\<open>NSRDS1\<close>, heat of vapourisation
  \<^verbatim>\<open>NSRDS6\<close>, heat capacity and enthalpy \<^verbatim>\<open>NSRDS0\<close>, ideal-gas heat capacity
  \<^verbatim>\<open>NSRDS7\<close>, second virial coefficient \<^verbatim>\<open>NSRDS4\<close>, liquid viscosity
  \<^verbatim>\<open>NSRDS1\<close>, vapour viscosity \<^verbatim>\<open>NSRDS2\<close>, thermal conductivity \<^verbatim>\<open>NSRDS0\<close>,
  vapour thermal conductivity \<^verbatim>\<open>NSRDS2\<close>, surface tension \<^verbatim>\<open>NSRDS6\<close>, vapour
  diffusivity \<^verbatim>\<open>APIdiffCoef\<close>. Two \<^verbatim>\<open>IDEA\<close> objects differ in a slot by the
  coefficients only.
\<close>

theorem IDEA_families_fixed:
  "map (\<lambda>s. typeOf (IDEA_slot x s)) allSlots =
     [''NSRDS5'', ''NSRDS1'', ''NSRDS6'', ''NSRDS0'', ''NSRDS0'', ''NSRDS7'', ''NSRDS4'',
      ''NSRDS1'', ''NSRDS2'', ''NSRDS0'', ''NSRDS2'', ''NSRDS6'', ''APIdiffCoef'']
   \<and> typeOf (IDEA_slot x s) = typeOf (IDEA_slot y s)
   \<and> (\<exists>cs. IDEA_slot x s = Fn (typeOf (IDEA_slot y s)) cs)"
proof -
  have same: "typeOf (IDEA_slot x s) = typeOf (IDEA_slot y s)"
    by (cases s) (simp_all add: upcast_typeOf)
  have "\<exists>cs. IDEA_slot x s = Fn (typeOf (IDEA_slot x s)) cs"
    by (cases s) (simp_all add: upcast_typeOf upcast_Fn)
  with same have "\<exists>cs. IDEA_slot x s = Fn (typeOf (IDEA_slot y s)) cs"
    by simp
  with same show ?thesis
    by (simp add: allSlots_def upcast_typeOf)
qed

text \<open>
  C10. \<^verbatim>\<open>clone()\<close> of a live \<^verbatim>\<open>IDEA\<close> object returns the address of a new
  object, in a cell that was not in use before the call; the new object equals the
  original in every member, so every accessor (any function of the object and of
  \<open>(p, T)\<close>) gives the same outcome on the clone as on the original; the cells that
  were in use, the original among them, are unchanged; and the copy is independent:
  a later change of the clone leaves the original as it is, and a later change of the
  original leaves the clone as it is.
\<close>

theorem clone_independent_copy:
  assumes "this < length hp"
  shows "\<exists>hp' a. clone hp this = Some (hp', a)
     \<and> a \<noteq> this \<and> \<not> a < length hp \<and> a < length hp'
     \<and> take (length hp) hp' = hp \<and> hp' ! this = hp ! this
     \<and> hp' ! a = hp ! this
     \<and> (\<forall>accessor :: 'l IDEA \<Rightarrow> scalar \<Rightarrow> scalar \<Rightarrow> error + scalar.
          \<forall>p T. accessor (hp' ! a) p T = accessor (hp ! this) p T)
     \<and> (\<forall>v. (hp'[a := v]) ! this = hp ! this)
     \<and> (\<forall>v. (hp'[this := v]) ! a = hp ! this)"
  using assms
  by (simp add: clone_def new_IDEA_def IDEA_copy_eq nth_append)

theorem clone_independent_copy_witness:
  "\<exists>hp' a. clone [\<lparr>liquidProperties = (), rhoF = NSRDS5 [1, 2, 3, 4], pvF = NSRDS1 [],
        hlF = NSRDS6 [], CpF = NSRDS0 [], hF = NSRDS0 [], CpgF = NSRDS7 [],
        BF = NSRDS4 [], muF = NSRDS1 [], mugF = NSRDS2 [], kappaF = NSRDS0 [],
        kappagF = NSRDS2 [], sigmaF = NSRDS6 [], DF = APIdiffCoef []\<rparr>] 0 = Some (hp', a)
     \<and> a = 1 \<and> length hp' = 2 \<and> hp' ! 1 = hp' ! 0 \<and> rhoF (hp' ! a) = NSRDS5 [1, 2, 3, 4]"
proof -
  let ?x = "\<lparr>liquidProperties = (), rhoF = NSRDS5 [1, 2, 3, 4], pvF = NSRDS1 [],
        hlF = NSRDS6 [], CpF = NSRDS0 [], hF = NSRDS0 [], CpgF = NSRDS7 [],
        BF = NSRDS4 [], muF = NSRDS1 [], mugF = NSRDS2 [], kappaF = NSRDS0 [],
        kappagF = NSRDS2 [], sigmaF = NSRDS6 [], DF = APIdiffCoef []\<rparr>"
  have live: "0 < length [?x]" by simp
  from clone_independent_copy [OF live]
  obtain hp' a where c: "clone [?x] 0 = Some (hp', a)"
    and fresh: "\<not> a < length [?x]" "a < length hp'"
    and old: "take (length [?x]) hp' = [?x]" "hp' ! 0 = [?x] ! 0" and copy: "hp' ! a = [?x] ! 0"
    by blast
  from c have "hp' = [?x, ?x] \<and> a = 1"
    by (simp add: clone_def new_IDEA_def IDEA_copy_eq)
  with c copy show ?thesis by simp
qed

end
